theory Spec2Isabelle
  imports Main "HOL-Library.Sublist"
begin

section \<open>JavaScript values the client list works on\<close>

subsection \<open>Dates\<close>

text \<open>
  A JavaScript \<open>Date\<close> holds a time value: a whole number of milliseconds since the
  epoch, or \<open>NaN\<close>, in which case the object is an "Invalid Date". A \<open>Date\<close> object is
  truthy whatever its time value; only \<open>undefined\<close> is falsy, so an optional date is a
  \<open>Date option\<close>.
\<close>

datatype Date = InvalidDate | Time int

text \<open>
  The three functions imported from \<open>date-fns\<close> (line 36), on \<open>Date\<close> arguments:
  \<open>isValid d\<close> is \<open>!isNaN(d.getTime())\<close>, \<open>isAfter a b\<close> is
  \<open>a.getTime() > b.getTime()\<close> and \<open>isBefore a b\<close> is \<open>a.getTime() < b.getTime()\<close>.
  A comparison of numbers with a \<open>NaN\<close> operand is false.
\<close>

fun isValid :: "Date \<Rightarrow> bool" where
  "isValid InvalidDate = False"
| "isValid (Time t) = True"

fun isAfter :: "Date \<Rightarrow> Date \<Rightarrow> bool" where
  "isAfter (Time a) (Time b) = (a > b)"
| "isAfter InvalidDate d = False"
| "isAfter d InvalidDate = False"

fun isBefore :: "Date \<Rightarrow> Date \<Rightarrow> bool" where
  "isBefore (Time a) (Time b) = (a < b)"
| "isBefore InvalidDate d = False"
| "isBefore d InvalidDate = False"

subsection \<open>Strings\<close>

text \<open>
  A JavaScript string is a sequence of UTF-16 code units, numbers below 65536. The
  strings that the component lower-cases and searches (the search text, the full name,
  the email and the company name) are such sequences, of type \<open>JSString\<close>. The strings
  that it only compares with one another or with the empty string, or hands on (ids,
  tags, phone numbers, the texts of the login form), are of type \<open>string\<close>; such a
  \<open>string\<close> stands for the JavaScript string by an encoding that is one-to-one and
  sends the empty string to the empty string, UTF-8 for instance.
\<close>

type_synonym JSString = "nat list"

text \<open>The code units of a literal whose characters are below 256.\<close>

definition js :: "string \<Rightarrow> JSString" where
  "js s = map of_char s"

text \<open>
  \<open>String.prototype.toLowerCase\<close> is defined by ECMA-262 in terms of the Unicode
  Character Database: the string is read as code points, the code points are lower-cased
  by the locale-insensitive mappings of \<open>UnicodeData.txt\<close> and \<open>SpecialCasing.txt\<close>,
  and the result is written back as code units. The three tables below are taken from
  version 14.0 of the database, as sorted lists of disjoint ranges.

  \<open>Lowercase_ranges\<close> holds the simple lower-case mappings. An entry
  \<open>(lo, hi, stride, target)\<close> maps \<open>lo\<close> to \<open>target\<close>, \<open>lo + stride\<close> to
  \<open>target + stride\<close>, and so on up to \<open>hi\<close>; a code point in no entry is its own
  lower case. \<open>Cased_ranges\<close> and \<open>Case_Ignorable_ranges\<close> hold the code points with
  the properties \<open>Cased\<close> and \<open>Case_Ignorable\<close>.
\<close>

definition Lowercase_ranges :: "(nat \<times> nat \<times> nat \<times> nat) list" where
  "Lowercase_ranges =
     [(65, 90, 1, 97), (192, 214, 1, 224), (216, 222, 1, 248), (256, 302, 2, 257),
      (306, 310, 2, 307), (313, 327, 2, 314), (330, 374, 2, 331), (376, 376, 1, 255),
      (377, 381, 2, 378), (385, 385, 1, 595), (386, 388, 2, 387), (390, 390, 1, 596),
      (391, 391, 1, 392), (393, 394, 1, 598), (395, 395, 1, 396), (398, 398, 1, 477),
      (399, 399, 1, 601), (400, 400, 1, 603), (401, 401, 1, 402), (403, 403, 1, 608),
      (404, 404, 1, 611), (406, 406, 1, 617), (407, 407, 1, 616), (408, 408, 1, 409),
      (412, 412, 1, 623), (413, 413, 1, 626), (415, 415, 1, 629), (416, 420, 2, 417),
      (422, 422, 1, 640), (423, 423, 1, 424), (425, 425, 1, 643), (428, 428, 1, 429),
      (430, 430, 1, 648), (431, 431, 1, 432), (433, 434, 1, 650), (435, 437, 2, 436),
      (439, 439, 1, 658), (440, 440, 1, 441), (444, 444, 1, 445), (452, 452, 1, 454),
      (453, 453, 1, 454), (455, 455, 1, 457), (456, 456, 1, 457), (458, 458, 1, 460),
      (459, 475, 2, 460), (478, 494, 2, 479), (497, 497, 1, 499), (498, 500, 2, 499),
      (502, 502, 1, 405), (503, 503, 1, 447), (504, 542, 2, 505), (544, 544, 1, 414),
      (546, 562, 2, 547), (570, 570, 1, 11365), (571, 571, 1, 572), (573, 573, 1, 410),
      (574, 574, 1, 11366), (577, 577, 1, 578), (579, 579, 1, 384), (580, 580, 1, 649),
      (581, 581, 1, 652), (582, 590, 2, 583), (880, 882, 2, 881), (886, 886, 1, 887),
      (895, 895, 1, 1011), (902, 902, 1, 940), (904, 906, 1, 941), (908, 908, 1, 972),
      (910, 911, 1, 973), (913, 929, 1, 945), (931, 939, 1, 963), (975, 975, 1, 983),
      (984, 1006, 2, 985), (1012, 1012, 1, 952), (1015, 1015, 1, 1016), (1017, 1017, 1, 1010),
      (1018, 1018, 1, 1019), (1021, 1023, 1, 891), (1024, 1039, 1, 1104),
      (1040, 1071, 1, 1072), (1120, 1152, 2, 1121), (1162, 1214, 2, 1163),
      (1216, 1216, 1, 1231), (1217, 1229, 2, 1218), (1232, 1326, 2, 1233),
      (1329, 1366, 1, 1377), (4256, 4293, 1, 11520), (4295, 4295, 1, 11559),
      (4301, 4301, 1, 11565), (5024, 5103, 1, 43888), (5104, 5109, 1, 5112),
      (7312, 7354, 1, 4304), (7357, 7359, 1, 4349), (7680, 7828, 2, 7681),
      (7838, 7838, 1, 223), (7840, 7934, 2, 7841), (7944, 7951, 1, 7936),
      (7960, 7965, 1, 7952), (7976, 7983, 1, 7968), (7992, 7999, 1, 7984),
      (8008, 8013, 1, 8000), (8025, 8031, 2, 8017), (8040, 8047, 1, 8032),
      (8072, 8079, 1, 8064), (8088, 8095, 1, 8080), (8104, 8111, 1, 8096),
      (8120, 8121, 1, 8112), (8122, 8123, 1, 8048), (8124, 8124, 1, 8115),
      (8136, 8139, 1, 8050), (8140, 8140, 1, 8131), (8152, 8153, 1, 8144),
      (8154, 8155, 1, 8054), (8168, 8169, 1, 8160), (8170, 8171, 1, 8058),
      (8172, 8172, 1, 8165), (8184, 8185, 1, 8056), (8186, 8187, 1, 8060),
      (8188, 8188, 1, 8179), (8486, 8486, 1, 969), (8490, 8490, 1, 107), (8491, 8491, 1, 229),
      (8498, 8498, 1, 8526), (8544, 8559, 1, 8560), (8579, 8579, 1, 8580),
      (9398, 9423, 1, 9424), (11264, 11311, 1, 11312), (11360, 11360, 1, 11361),
      (11362, 11362, 1, 619), (11363, 11363, 1, 7549), (11364, 11364, 1, 637),
      (11367, 11371, 2, 11368), (11373, 11373, 1, 593), (11374, 11374, 1, 625),
      (11375, 11375, 1, 592), (11376, 11376, 1, 594), (11378, 11378, 1, 11379),
      (11381, 11381, 1, 11382), (11390, 11391, 1, 575), (11392, 11490, 2, 11393),
      (11499, 11501, 2, 11500), (11506, 11506, 1, 11507), (42560, 42604, 2, 42561),
      (42624, 42650, 2, 42625), (42786, 42798, 2, 42787), (42802, 42862, 2, 42803),
      (42873, 42875, 2, 42874), (42877, 42877, 1, 7545), (42878, 42886, 2, 42879),
      (42891, 42891, 1, 42892), (42893, 42893, 1, 613), (42896, 42898, 2, 42897),
      (42902, 42920, 2, 42903), (42922, 42922, 1, 614), (42923, 42923, 1, 604),
      (42924, 42924, 1, 609), (42925, 42925, 1, 620), (42926, 42926, 1, 618),
      (42928, 42928, 1, 670), (42929, 42929, 1, 647), (42930, 42930, 1, 669),
      (42931, 42931, 1, 43859), (42932, 42946, 2, 42933), (42948, 42948, 1, 42900),
      (42949, 42949, 1, 642), (42950, 42950, 1, 7566), (42951, 42953, 2, 42952),
      (42960, 42960, 1, 42961), (42966, 42968, 2, 42967), (42997, 42997, 1, 42998),
      (65313, 65338, 1, 65345), (66560, 66599, 1, 66600), (66736, 66771, 1, 66776),
      (66928, 66938, 1, 66967), (66940, 66954, 1, 66979), (66956, 66962, 1, 66995),
      (66964, 66965, 1, 67003), (68736, 68786, 1, 68800), (71840, 71871, 1, 71872),
      (93760, 93791, 1, 93792), (125184, 125217, 1, 125218)]"

definition Cased_ranges :: "(nat \<times> nat) list" where
  "Cased_ranges =
     [(65, 90), (97, 122), (170, 170), (181, 181), (186, 186), (192, 214), (216, 246),
      (248, 442), (444, 447), (452, 659), (661, 696), (704, 705), (736, 740), (837, 837),
      (880, 883), (886, 887), (890, 893), (895, 895), (902, 902), (904, 906), (908, 908),
      (910, 929), (931, 1013), (1015, 1153), (1162, 1327), (1329, 1366), (1376, 1416),
      (4256, 4293), (4295, 4295), (4301, 4301), (4304, 4346), (4349, 4351), (5024, 5109),
      (5112, 5117), (7296, 7304), (7312, 7354), (7357, 7359), (7424, 7615), (7680, 7957),
      (7960, 7965), (7968, 8005), (8008, 8013), (8016, 8023), (8025, 8025), (8027, 8027),
      (8029, 8029), (8031, 8061), (8064, 8116), (8118, 8124), (8126, 8126), (8130, 8132),
      (8134, 8140), (8144, 8147), (8150, 8155), (8160, 8172), (8178, 8180), (8182, 8188),
      (8305, 8305), (8319, 8319), (8336, 8348), (8450, 8450), (8455, 8455), (8458, 8467),
      (8469, 8469), (8473, 8477), (8484, 8484), (8486, 8486), (8488, 8488), (8490, 8493),
      (8495, 8500), (8505, 8505), (8508, 8511), (8517, 8521), (8526, 8526), (8544, 8575),
      (8579, 8580), (9398, 9449), (11264, 11492), (11499, 11502), (11506, 11507),
      (11520, 11557), (11559, 11559), (11565, 11565), (42560, 42605), (42624, 42653),
      (42786, 42887), (42891, 42894), (42896, 42954), (42960, 42961), (42963, 42963),
      (42965, 42969), (42997, 42998), (43000, 43002), (43824, 43866), (43868, 43880),
      (43888, 43967), (64256, 64262), (64275, 64279), (65313, 65338), (65345, 65370),
      (66560, 66639), (66736, 66771), (66776, 66811), (66928, 66938), (66940, 66954),
      (66956, 66962), (66964, 66965), (66967, 66977), (66979, 66993), (66995, 67001),
      (67003, 67004), (67456, 67456), (67459, 67461), (67463, 67504), (67506, 67514),
      (68736, 68786), (68800, 68850), (71840, 71903), (93760, 93823), (119808, 119892),
      (119894, 119964), (119966, 119967), (119970, 119970), (119973, 119974),
      (119977, 119980), (119982, 119993), (119995, 119995), (119997, 120003),
      (120005, 120069), (120071, 120074), (120077, 120084), (120086, 120092),
      (120094, 120121), (120123, 120126), (120128, 120132), (120134, 120134),
      (120138, 120144), (120146, 120485), (120488, 120512), (120514, 120538),
      (120540, 120570), (120572, 120596), (120598, 120628), (120630, 120654),
      (120656, 120686), (120688, 120712), (120714, 120744), (120746, 120770),
      (120772, 120779), (122624, 122633), (122635, 122654), (125184, 125251),
      (127280, 127305), (127312, 127337), (127344, 127369)]"

definition Case_Ignorable_ranges :: "(nat \<times> nat) list" where
  "Case_Ignorable_ranges =
     [(39, 39), (46, 46), (58, 58), (94, 94), (96, 96), (168, 168), (173, 173), (175, 175),
      (180, 180), (183, 184), (688, 879), (884, 885), (890, 890), (900, 901), (903, 903),
      (1155, 1161), (1369, 1369), (1375, 1375), (1425, 1469), (1471, 1471), (1473, 1474),
      (1476, 1477), (1479, 1479), (1524, 1524), (1536, 1541), (1552, 1562), (1564, 1564),
      (1600, 1600), (1611, 1631), (1648, 1648), (1750, 1757), (1759, 1768), (1770, 1773),
      (1807, 1807), (1809, 1809), (1840, 1866), (1958, 1968), (2027, 2037), (2042, 2042),
      (2045, 2045), (2070, 2093), (2137, 2139), (2184, 2184), (2192, 2193), (2200, 2207),
      (2249, 2306), (2362, 2362), (2364, 2364), (2369, 2376), (2381, 2381), (2385, 2391),
      (2402, 2403), (2417, 2417), (2433, 2433), (2492, 2492), (2497, 2500), (2509, 2509),
      (2530, 2531), (2558, 2558), (2561, 2562), (2620, 2620), (2625, 2626), (2631, 2632),
      (2635, 2637), (2641, 2641), (2672, 2673), (2677, 2677), (2689, 2690), (2748, 2748),
      (2753, 2757), (2759, 2760), (2765, 2765), (2786, 2787), (2810, 2815), (2817, 2817),
      (2876, 2876), (2879, 2879), (2881, 2884), (2893, 2893), (2901, 2902), (2914, 2915),
      (2946, 2946), (3008, 3008), (3021, 3021), (3072, 3072), (3076, 3076), (3132, 3132),
      (3134, 3136), (3142, 3144), (3146, 3149), (3157, 3158), (3170, 3171), (3201, 3201),
      (3260, 3260), (3263, 3263), (3270, 3270), (3276, 3277), (3298, 3299), (3328, 3329),
      (3387, 3388), (3393, 3396), (3405, 3405), (3426, 3427), (3457, 3457), (3530, 3530),
      (3538, 3540), (3542, 3542), (3633, 3633), (3636, 3642), (3654, 3662), (3761, 3761),
      (3764, 3772), (3782, 3782), (3784, 3789), (3864, 3865), (3893, 3893), (3895, 3895),
      (3897, 3897), (3953, 3966), (3968, 3972), (3974, 3975), (3981, 3991), (3993, 4028),
      (4038, 4038), (4141, 4144), (4146, 4151), (4153, 4154), (4157, 4158), (4184, 4185),
      (4190, 4192), (4209, 4212), (4226, 4226), (4229, 4230), (4237, 4237), (4253, 4253),
      (4348, 4348), (4957, 4959), (5906, 5908), (5938, 5939), (5970, 5971), (6002, 6003),
      (6068, 6069), (6071, 6077), (6086, 6086), (6089, 6099), (6103, 6103), (6109, 6109),
      (6155, 6159), (6211, 6211), (6277, 6278), (6313, 6313), (6432, 6434), (6439, 6440),
      (6450, 6450), (6457, 6459), (6679, 6680), (6683, 6683), (6742, 6742), (6744, 6750),
      (6752, 6752), (6754, 6754), (6757, 6764), (6771, 6780), (6783, 6783), (6823, 6823),
      (6832, 6862), (6912, 6915), (6964, 6964), (6966, 6970), (6972, 6972), (6978, 6978),
      (7019, 7027), (7040, 7041), (7074, 7077), (7080, 7081), (7083, 7085), (7142, 7142),
      (7144, 7145), (7149, 7149), (7151, 7153), (7212, 7219), (7222, 7223), (7288, 7293),
      (7376, 7378), (7380, 7392), (7394, 7400), (7405, 7405), (7412, 7412), (7416, 7417),
      (7468, 7530), (7544, 7544), (7579, 7679), (8125, 8125), (8127, 8129), (8141, 8143),
      (8157, 8159), (8173, 8175), (8189, 8190), (8203, 8207), (8216, 8217), (8228, 8228),
      (8231, 8231), (8234, 8238), (8288, 8292), (8294, 8303), (8305, 8305), (8319, 8319),
      (8336, 8348), (8400, 8432), (11388, 11389), (11503, 11505), (11631, 11631),
      (11647, 11647), (11744, 11775), (11823, 11823), (12293, 12293), (12330, 12333),
      (12337, 12341), (12347, 12347), (12441, 12446), (12540, 12542), (40981, 40981),
      (42232, 42237), (42508, 42508), (42607, 42610), (42612, 42621), (42623, 42623),
      (42652, 42655), (42736, 42737), (42752, 42785), (42864, 42864), (42888, 42890),
      (42994, 42996), (43000, 43001), (43010, 43010), (43014, 43014), (43019, 43019),
      (43045, 43046), (43052, 43052), (43204, 43205), (43232, 43249), (43263, 43263),
      (43302, 43309), (43335, 43345), (43392, 43394), (43443, 43443), (43446, 43449),
      (43452, 43453), (43471, 43471), (43493, 43494), (43561, 43566), (43569, 43570),
      (43573, 43574), (43587, 43587), (43596, 43596), (43632, 43632), (43644, 43644),
      (43696, 43696), (43698, 43700), (43703, 43704), (43710, 43711), (43713, 43713),
      (43741, 43741), (43756, 43757), (43763, 43764), (43766, 43766), (43867, 43871),
      (43881, 43883), (44005, 44005), (44008, 44008), (44013, 44013), (64286, 64286),
      (64434, 64450), (65024, 65039), (65043, 65043), (65056, 65071), (65106, 65106),
      (65109, 65109), (65279, 65279), (65287, 65287), (65294, 65294), (65306, 65306),
      (65342, 65342), (65344, 65344), (65392, 65392), (65438, 65439), (65507, 65507),
      (65529, 65531), (66045, 66045), (66272, 66272), (66422, 66426), (67456, 67461),
      (67463, 67504), (67506, 67514), (68097, 68099), (68101, 68102), (68108, 68111),
      (68152, 68154), (68159, 68159), (68325, 68326), (68900, 68903), (69291, 69292),
      (69446, 69456), (69506, 69509), (69633, 69633), (69688, 69702), (69744, 69744),
      (69747, 69748), (69759, 69761), (69811, 69814), (69817, 69818), (69821, 69821),
      (69826, 69826), (69837, 69837), (69888, 69890), (69927, 69931), (69933, 69940),
      (70003, 70003), (70016, 70017), (70070, 70078), (70089, 70092), (70095, 70095),
      (70191, 70193), (70196, 70196), (70198, 70199), (70206, 70206), (70367, 70367),
      (70371, 70378), (70400, 70401), (70459, 70460), (70464, 70464), (70502, 70508),
      (70512, 70516), (70712, 70719), (70722, 70724), (70726, 70726), (70750, 70750),
      (70835, 70840), (70842, 70842), (70847, 70848), (70850, 70851), (71090, 71093),
      (71100, 71101), (71103, 71104), (71132, 71133), (71219, 71226), (71229, 71229),
      (71231, 71232), (71339, 71339), (71341, 71341), (71344, 71349), (71351, 71351),
      (71453, 71455), (71458, 71461), (71463, 71467), (71727, 71735), (71737, 71738),
      (71995, 71996), (71998, 71998), (72003, 72003), (72148, 72151), (72154, 72155),
      (72160, 72160), (72193, 72202), (72243, 72248), (72251, 72254), (72263, 72263),
      (72273, 72278), (72281, 72283), (72330, 72342), (72344, 72345), (72752, 72758),
      (72760, 72765), (72767, 72767), (72850, 72871), (72874, 72880), (72882, 72883),
      (72885, 72886), (73009, 73014), (73018, 73018), (73020, 73021), (73023, 73029),
      (73031, 73031), (73104, 73105), (73109, 73109), (73111, 73111), (73459, 73460),
      (78896, 78904), (92912, 92916), (92976, 92982), (92992, 92995), (94031, 94031),
      (94095, 94111), (94176, 94177), (94179, 94180), (110576, 110579), (110581, 110587),
      (110589, 110590), (113821, 113822), (113824, 113827), (118528, 118573),
      (118576, 118598), (119143, 119145), (119155, 119170), (119173, 119179),
      (119210, 119213), (119362, 119364), (121344, 121398), (121403, 121452),
      (121461, 121461), (121476, 121476), (121499, 121503), (121505, 121519),
      (122880, 122886), (122888, 122904), (122907, 122913), (122915, 122916),
      (122918, 122922), (123184, 123197), (123566, 123566), (123628, 123631),
      (125136, 125142), (125252, 125259), (127995, 127999), (917505, 917505),
      (917536, 917631), (917760, 917999)]"

fun mappedBy :: "(nat \<times> nat \<times> nat \<times> nat) list \<Rightarrow> nat \<Rightarrow> nat" where
  "mappedBy [] c = c"
| "mappedBy ((lo, hi, stride, target) # rs) c =
     (if c < lo then c
      else if c \<le> hi \<and> (c - lo) mod stride = 0 then target + (c - lo)
      else mappedBy rs c)"

fun inRanges :: "(nat \<times> nat) list \<Rightarrow> nat \<Rightarrow> bool" where
  "inRanges [] c = False"
| "inRanges ((lo, hi) # rs) c =
     (if c < lo then False else if c \<le> hi then True else inRanges rs c)"

definition Simple_Lowercase_Mapping :: "nat \<Rightarrow> nat" where
  "Simple_Lowercase_Mapping c = mappedBy Lowercase_ranges c"

definition Cased :: "nat \<Rightarrow> bool" where
  "Cased c = inRanges Cased_ranges c"

definition Case_Ignorable :: "nat \<Rightarrow> bool" where
  "Case_Ignorable c = inRanges Case_Ignorable_ranges c"

text \<open>
  The full lower-case mapping of a code point: \<open>SpecialCasing.txt\<close> has one
  unconditional, locale-insensitive entry for lower case, which maps the capital I with
  dot above (304) to the small i (105) followed by the combining dot above (775).
\<close>

definition Lowercase_Mapping :: "nat \<Rightarrow> nat list" where
  "Lowercase_Mapping c = (if c = 304 then [105, 775] else [Simple_Lowercase_Mapping c])"

text \<open>
  The one conditional, locale-insensitive entry of \<open>SpecialCasing.txt\<close> is
  \<open>Final_Sigma\<close>: the capital sigma (931) becomes the final small sigma (962), not
  the small sigma (963), when it is preceded by a cased letter and not followed by one,
  case-ignorable code points in between being skipped. \<open>followedByCasedLetter\<close> scans
  the code points after the sigma, or the code points before it read backwards, the way
  the ICU library does.
\<close>

fun followedByCasedLetter :: "nat list \<Rightarrow> bool" where
  "followedByCasedLetter [] = False"
| "followedByCasedLetter (c # cs) =
     (if Case_Ignorable c then followedByCasedLetter cs else Cased c)"

definition Final_Sigma :: "nat list \<Rightarrow> nat list \<Rightarrow> bool" where
  "Final_Sigma preceding following =
     (followedByCasedLetter preceding \<and> \<not> followedByCasedLetter following)"

text \<open>
  The Unicode operation \<open>toLowercase\<close> on a sequence of code points;
  \<open>toLowercase_from preceding cs\<close> lower-cases \<open>cs\<close>, where \<open>preceding\<close> holds
  the code points that come before \<open>cs\<close>, the nearest first.
\<close>

fun toLowercase_from :: "nat list \<Rightarrow> nat list \<Rightarrow> nat list" where
  "toLowercase_from preceding [] = []"
| "toLowercase_from preceding (c # following) =
     (if c = 931 \<and> Final_Sigma preceding following then [962] else Lowercase_Mapping c)
     @ toLowercase_from (c # preceding) following"

definition toLowercase :: "nat list \<Rightarrow> nat list" where
  "toLowercase cs = toLowercase_from [] cs"

text \<open>
  \<open>StringToCodePoints\<close> and \<open>CodePointsToString\<close> of ECMA-262: a leading surrogate
  (55296 to 56319) followed by a trailing surrogate (56320 to 57343) is one code point
  from 65536 on; every other code unit is a code point by itself.
\<close>

fun StringToCodePoints :: "JSString \<Rightarrow> nat list" where
  "StringToCodePoints (u # v # s) =
     (if 55296 \<le> u \<and> u \<le> 56319 \<and> 56320 \<le> v \<and> v \<le> 57343
      then (65536 + (u - 55296) * 1024 + (v - 56320)) # StringToCodePoints s
      else u # StringToCodePoints (v # s))"
| "StringToCodePoints s = s"

definition UTF16EncodeCodePoint :: "nat \<Rightarrow> JSString" where
  "UTF16EncodeCodePoint cp =
     (if cp \<le> 65535 then [cp]
      else [(cp - 65536) div 1024 + 55296, (cp - 65536) mod 1024 + 56320])"

definition CodePointsToString :: "nat list \<Rightarrow> JSString" where
  "CodePointsToString cps = concat (map UTF16EncodeCodePoint cps)"

text \<open>\<open>String.prototype.toLowerCase\<close>.\<close>

definition toLowerCase :: "JSString \<Rightarrow> JSString" where
  "toLowerCase s = CodePointsToString (toLowercase (StringToCodePoints s))"

text \<open>
  \<open>String.prototype.includes\<close>: \<open>String_includes s x\<close> is \<open>s.includes(x)\<close>, true when
  \<open>x\<close> occurs in \<open>s\<close> starting at some position (the empty string occurs everywhere).
\<close>

fun String_includes :: "JSString \<Rightarrow> JSString \<Rightarrow> bool" where
  "String_includes [] x = (x = [])"
| "String_includes (c # s) x = (prefix x (c # s) \<or> String_includes s x)"

text \<open>
  \<open>Array.prototype.includes\<close> on an array of strings: some element is the same string
  as \<open>x\<close> (strict equality of strings compares their characters).
\<close>

fun Array_includes :: "string list \<Rightarrow> string \<Rightarrow> bool" where
  "Array_includes [] x = False"
| "Array_includes (y # ys) x = (y = x \<or> Array_includes ys x)"

section \<open>The data model\<close>

text \<open>
  Modelled from the spec: the type \<open>Client\<close> is imported from \<open>@/types/client\<close>, whose
  declaration is not among the sources. The fields are the ones the spec lists and the
  component reads; the optional ones (\<open>companyName\<close>, \<open>address\<close>, \<open>notes\<close>, \<open>tags\<close>)
  are \<open>undefined\<close> when \<open>None\<close>. The fields \<open>id\<close> and \<open>notes\<close> are named
  \<open>id_Client\<close> and \<open>notes_Client\<close>. The representation \<open>'t\<close> of \<open>createdAt\<close> is left open: the component only ever passes
  it to \<open>new Date\<close>.
\<close>

record 't Client =
  id_Client :: string
  fullName :: JSString
  email :: JSString
  phone :: string
  companyName :: "JSString option"
  address :: "string option"
  notes_Client :: "string option"
  tags :: "string list option"
  createdAt :: 't

text \<open>
  Modelled from the spec: the type \<open>ClientFilterParams\<close> is imported from
  \<open>@/types/client\<close> as well. \<open>search\<close> is a string, \<open>tag\<close> an optional string and
  \<open>dateRange\<close> an optional object with the optional dates \<open>from\<close> and \<open>to\<close>, here
  \<open>from_DateRange\<close> and \<open>to_DateRange\<close>.
\<close>

record DateRange =
  from_DateRange :: "Date option"
  to_DateRange :: "Date option"

record ClientFilterParams =
  search :: JSString
  tag :: "string option"
  dateRange :: "DateRange option"

text \<open>The initial value of \<open>filterParams\<close> (lines 46 to 50).\<close>

definition initialFilterParams :: ClientFilterParams where
  "initialFilterParams = \<lparr>search = [], tag = None, dateRange = None\<rparr>"

section \<open>The filter (lines 57 to 85)\<close>

text \<open>
  Lines 59 to 63. \<open>!filterParams.search\<close> holds exactly for the empty string;
  \<open>client.companyName?.toLowerCase().includes(...)\<close> is \<open>undefined\<close>, hence falsy, when
  the company name is absent.
\<close>

definition searchMatch :: "ClientFilterParams \<Rightarrow> 't Client \<Rightarrow> bool" where
  "searchMatch filterParams client =
     (search filterParams = [] \<or>
      String_includes (toLowerCase (fullName client)) (toLowerCase (search filterParams)) \<or>
      String_includes (toLowerCase (email client)) (toLowerCase (search filterParams)) \<or>
      (case companyName client of
         None \<Rightarrow> False
       | Some cn \<Rightarrow> String_includes (toLowerCase cn) (toLowerCase (search filterParams))) \<or>
      False)"

text \<open>
  Lines 66 to 68. \<open>!filterParams.tag\<close> holds when the tag is \<open>undefined\<close> and also when
  it is the empty string.
\<close>

definition tagMatch :: "ClientFilterParams \<Rightarrow> 't Client \<Rightarrow> bool" where
  "tagMatch filterParams client =
     (case tag filterParams of
        None \<Rightarrow> True
      | Some t \<Rightarrow>
          t = [] \<or>
          (case tags client of None \<Rightarrow> False | Some ts \<Rightarrow> Array_includes ts t) \<or>
          False)"

text \<open>
  Lines 71 to 82. \<open>newDate\<close> stands for the constructor call \<open>new Date(client.createdAt)\<close>:
  it gives \<open>InvalidDate\<close> for a value that does not denote a date.
\<close>

definition dateMatch ::
  "('t \<Rightarrow> Date) \<Rightarrow> ClientFilterParams \<Rightarrow> 't Client \<Rightarrow> bool" where
  "dateMatch newDate filterParams client =
     (case dateRange filterParams of
        None \<Rightarrow> True
      | Some dr \<Rightarrow>
          if from_DateRange dr \<noteq> None \<or> to_DateRange dr \<noteq> None then
            let createdDate = newDate (createdAt client);
                dateMatch1 =
                  (case from_DateRange dr of
                     None \<Rightarrow> True
                   | Some f \<Rightarrow> if isValid f then True \<and> isAfter createdDate f else True);
                dateMatch2 =
                  (case to_DateRange dr of
                     None \<Rightarrow> dateMatch1
                   | Some t \<Rightarrow> if isValid t then dateMatch1 \<and> isBefore createdDate t
                               else dateMatch1)
            in dateMatch2
          else True)"

definition filteredClients ::
  "('t \<Rightarrow> Date) \<Rightarrow> 't Client list \<Rightarrow> ClientFilterParams
     \<Rightarrow> 't Client list" where
  "filteredClients newDate clients filterParams =
     filter (\<lambda>client. searchMatch filterParams client \<and> tagMatch filterParams client \<and>
                       dateMatch newDate filterParams client) clients"



text \<open>
  Containment up to letter case for ASCII strings, said without any lower-casing: two
  code units are the same letter when they are equal or one is a capital from \<open>A\<close> to
  \<open>Z\<close> (65 to 90) and the other is its small letter, 32 further on; \<open>t\<close> contains
  \<open>s\<close> when some contiguous piece of \<open>t\<close> is \<open>s\<close> letter by letter.
\<close>

definition isASCII :: "JSString \<Rightarrow> bool" where
  "isASCII s = list_all (\<lambda>u. u < 128) s"

definition lowerLetterASCII :: "nat \<Rightarrow> nat" where
  "lowerLetterASCII a = (if 65 \<le> a \<and> a \<le> 90 then a + 32 else a)"






text \<open>
  The spec's tag predicate on a client: its \<open>tags\<close> are present and one of them is
  the string \<open>t\<close>, character by character.
\<close>

definition hasTag :: "string \<Rightarrow> 't Client \<Rightarrow> bool" where
  "hasTag t c = (case tags c of None \<Rightarrow> False | Some ts \<Rightarrow> t \<in> set ts)"

section \<open>The selection state of the client list\<close>

text \<open>
  The four \<open>useState\<close> cells of \<open>ClientList\<close> (lines 46 to 53). \<open>clientToDelete\<close> is
  \<open>null\<close> (\<open>None\<close>, the spec's \<open>Idle\<close>) or a client (\<open>PendingDelete\<close>);
  \<open>showDetails\<close> is \<open>null\<close> (\<open>None\<close>, the spec's \<open>Hidden\<close>) or a client id
  (\<open>Showing\<close>).
\<close>

record 't ClientList_state =
  filterParams :: ClientFilterParams
  showFilters :: bool
  clientToDelete :: "'t Client option"
  showDetails :: "string option"

text \<open>
  The props \<open>onEditClient\<close> and \<open>onDeleteClient\<close> are functions of the enclosing
  application. A call of one either returns a value, which the component never looks at,
  or throws; it is modelled by a function into \<open>'x + 'r\<close>, \<open>Inl\<close> for the thrown
  value. A handler's run gives the state after it, the calls of the props it made, in
  order, and the exception that left it, if any. No handler of \<open>ClientList\<close> has a
  \<open>try\<close> block, so an exception thrown by a prop ends the handler at once.
\<close>

datatype 't ClientList_call = Call_onEditClient "'t Client" | Call_onDeleteClient string

record ('t, 'x) ClientList_run =
  state_after :: "'t ClientList_state"
  calls :: "'t ClientList_call list"
  thrown :: "'x option"

text \<open>Lines 249, 255, 261, 267 and 273: a click on a cell of the row of \<open>client\<close>.\<close>

definition rowClick :: "'t Client \<Rightarrow> 't ClientList_state \<Rightarrow> 't ClientList_state" where
  "rowClick client st =
     st\<lparr>showDetails :=
          (if Some (id_Client client) = showDetails st then None else Some (id_Client client))\<rparr>"

text \<open>Line 295: the delete button of a row.\<close>

definition trashClick :: "'t Client \<Rightarrow> 't ClientList_state \<Rightarrow> 't ClientList_state" where
  "trashClick client st = st\<lparr>clientToDelete := Some client\<rparr>"

text \<open>Lines 313 and 326: closing the confirmation dialog, and its Cancel button.\<close>

definition deleteDialog_onOpenChange ::
  "bool \<Rightarrow> 't ClientList_state \<Rightarrow> 't ClientList_state" where
  "deleteDialog_onOpenChange isOpen st =
     (if \<not> isOpen then st\<lparr>clientToDelete := None\<rparr> else st)"

definition cancelClick :: "'t ClientList_state \<Rightarrow> 't ClientList_state" where
  "cancelClick st = st\<lparr>clientToDelete := None\<rparr>"

text \<open>Lines 332 to 337: the Delete button of the confirmation dialog.\<close>

definition deleteClick ::
  "(string \<Rightarrow> 'x + 'r) \<Rightarrow> 't ClientList_state \<Rightarrow> ('t, 'x) ClientList_run" where
  "deleteClick onDeleteClient st =
     (case clientToDelete st of
        None \<Rightarrow> \<lparr>state_after = st, calls = [], thrown = None\<rparr>
      | Some c \<Rightarrow>
          (case onDeleteClient (id_Client c) of
             Inl x \<Rightarrow>
               \<lparr>state_after = st, calls = [Call_onDeleteClient (id_Client c)],
                thrown = Some x\<rparr>
           | Inr r \<Rightarrow>
               \<lparr>state_after = st\<lparr>clientToDelete := None\<rparr>,
                calls = [Call_onDeleteClient (id_Client c)], thrown = None\<rparr>))"

text \<open>Lines 348 and 408: closing the details dialog, and its Close button.\<close>

definition detailsDialog_onOpenChange ::
  "bool \<Rightarrow> 't ClientList_state \<Rightarrow> 't ClientList_state" where
  "detailsDialog_onOpenChange isOpen st =
     (if \<not> isOpen then st\<lparr>showDetails := None\<rparr> else st)"

definition closeClick :: "'t ClientList_state \<Rightarrow> 't ClientList_state" where
  "closeClick st = st\<lparr>showDetails := None\<rparr>"

text \<open>
  \<open>clients.find(c => c.id === showDetails)\<close> (lines 351, 361 and 414): the first client
  with that id, \<open>undefined\<close> when there is none or \<open>showDetails\<close> is \<open>null\<close>.
\<close>

definition findShown :: "'t Client list \<Rightarrow> 't ClientList_state \<Rightarrow> 't Client option" where
  "findShown clients st =
     (case showDetails st of
        None \<Rightarrow> None
      | Some i \<Rightarrow> find (\<lambda>c. id_Client c = i) clients)"

text \<open>
  Line 351: the body of the details dialog is rendered for the client found, and
  nothing is rendered when \<open>showDetails\<close> is falsy (\<open>null\<close> or the empty string) or no
  client is found.
\<close>

definition detailsBody :: "'t Client list \<Rightarrow> 't ClientList_state \<Rightarrow> 't Client option" where
  "detailsBody clients st =
     (case showDetails st of
        None \<Rightarrow> None
      | Some i \<Rightarrow> if i = [] then None else findShown clients st)"

text \<open>Lines 413 to 419: the Edit Client button of the details dialog.\<close>

definition editClientClick ::
  "('t Client \<Rightarrow> 'x + 'r) \<Rightarrow> 't Client list \<Rightarrow> 't ClientList_state
     \<Rightarrow> ('t, 'x) ClientList_run" where
  "editClientClick onEditClient clients st =
     (case findShown clients st of
        None \<Rightarrow> \<lparr>state_after = st, calls = [], thrown = None\<rparr>
      | Some client \<Rightarrow>
          (case onEditClient client of
             Inl x \<Rightarrow> \<lparr>state_after = st, calls = [Call_onEditClient client], thrown = Some x\<rparr>
           | Inr r \<Rightarrow>
               \<lparr>state_after = st\<lparr>showDetails := None\<rparr>,
                calls = [Call_onEditClient client], thrown = None\<rparr>))"

section \<open>The login form\<close>

text \<open>
  The state of \<open>Login\<close> (lines 444 to 446); the fields \<open>email\<close> and \<open>password\<close> are
  named \<open>email_Login\<close> and \<open>password_Login\<close>.
\<close>

record Login_state =
  email_Login :: string
  password_Login :: string
  isLoading :: bool

text \<open>The argument of \<open>toast\<close>; the success toast has no \<open>variant\<close>.\<close>

record Toast =
  title :: string
  description :: string
  variant :: "string option"

text \<open>
  What \<open>await login(email, password)\<close> comes to: the promise is fulfilled, or it is
  rejected with a reason, or it never settles and the handler never resumes. A \<open>login\<close>
  that throws before it returns a promise reaches the same \<open>catch\<close> block as a
  rejection and is a \<open>Rejected\<close> too.
\<close>

datatype 'e Awaited = Fulfilled | Rejected 'e | NeverSettled

text \<open>The calls a run of \<open>handleLogin\<close> makes, in order.\<close>

datatype Login_call =
  Call_preventDefault
| Call_login string string
| Call_toast Toast
| Call_navigate string

text \<open>Lines 455 to 485.\<close>

definition handleLogin ::
  "(string \<Rightarrow> string \<Rightarrow> 'e Awaited) \<Rightarrow> Login_state \<Rightarrow> Login_state \<times> Login_call list" where
  "handleLogin login st =
     (let st1 = st\<lparr>isLoading := True\<rparr> in
      if email_Login st = [] \<or> password_Login st = [] then
        (st1\<lparr>isLoading := False\<rparr>,
         [Call_preventDefault,
          Call_toast \<lparr>title = ''Error'',
                      description = ''Please enter both email and password'',
                      variant = Some ''destructive''\<rparr>])
      else
        (case login (email_Login st) (password_Login st) of
           Fulfilled \<Rightarrow>
             (st1\<lparr>isLoading := False\<rparr>,
              [Call_preventDefault,
               Call_login (email_Login st) (password_Login st),
               Call_toast \<lparr>title = ''Success'',
                           description = ''You have successfully logged in'',
                           variant = None\<rparr>,
               Call_navigate ''/dashboard''])
         | Rejected error \<Rightarrow>
             (st1\<lparr>isLoading := False\<rparr>,
              [Call_preventDefault,
               Call_login (email_Login st) (password_Login st),
               Call_toast \<lparr>title = ''Error'',
                           description = ''Failed to log in. Please check your credentials.'',
                           variant = Some ''destructive''\<rparr>])
         | NeverSettled \<Rightarrow>
             (st1,
              [Call_preventDefault,
               Call_login (email_Login st) (password_Login st)])))"

section \<open>Example data\<close>

text \<open>
  The collection of the spec's concrete scenarios, a client without tags and a client
  tagged \<open>vip\<close> in lower case.
\<close>

definition acme :: "string Client" where
  "acme = \<lparr>id_Client = ''1'', fullName = js ''Acme Corp'', email = js ''a@x.com'', phone = [],
           companyName = None, address = None, notes_Client = None,
           tags = Some [''VIP''], createdAt = ''2023-01-01''\<rparr>"

definition beta :: "string Client" where
  "beta = \<lparr>id_Client = ''2'', fullName = js ''Beta LLC'', email = js ''b@x.com'', phone = [],
           companyName = None, address = None, notes_Client = None,
           tags = Some [], createdAt = ''2023-06-01''\<rparr>"

definition gamma :: "string Client" where
  "gamma = \<lparr>id_Client = ''3'', fullName = js ''Gamma'', email = js ''g@x.com'', phone = [],
            companyName = Some (js ''Betamax Inc''), address = None, notes_Client = None,
            tags = None, createdAt = ''not a date''\<rparr>"

definition delta :: "string Client" where
  "delta = \<lparr>id_Client = ''4'', fullName = js ''Delta'', email = js ''d@x.com'', phone = [],
            companyName = Some (js ''acme''), address = None, notes_Client = None,
            tags = Some [''vip''], createdAt = ''2023-03-01''\<rparr>"

text \<open>
  A client named Ecole, where the capital E carries an acute accent (201), and a client
  whose name is the three Greek capitals alpha, sigma, beta (913, 931, 914).
\<close>

definition ecole :: "string Client" where
  "ecole = \<lparr>id_Client = ''5'', fullName = [201, 99, 111, 108, 101], email = js ''e@x.com'',
            phone = [], companyName = None, address = None, notes_Client = None,
            tags = None, createdAt = ''2023-03-01''\<rparr>"

definition alphaSigmaBeta :: "string Client" where
  "alphaSigmaBeta = \<lparr>id_Client = ''6'', fullName = [913, 931, 914], email = js ''s@x.com'',
                     phone = [], companyName = None, address = None, notes_Client = None,
                     tags = None, createdAt = ''2023-03-01''\<rparr>"

text \<open>
  \<open>new Date\<close> on the strings of the examples: midnight UTC of the day, in milliseconds,
  for the dates, and an invalid date for anything else here.
\<close>

definition exampleDate :: "string \<Rightarrow> Date" where
  "exampleDate s =
     (if s = ''2023-01-01'' then Time 1672531200000
      else if s = ''2023-03-01'' then Time 1677628800000
      else if s = ''2023-06-01'' then Time 1685577600000
      else InvalidDate)"

text \<open>Filter states: the dates are 2023-01-01, 2023-03-01 and 2023-06-01.\<close>

definition searchBeta :: ClientFilterParams where
  "searchBeta = \<lparr>search = js ''bEtA'', tag = None, dateRange = None\<rparr>"

text \<open>
  Searches for the small e with acute accent (233) and for the capitals alpha, sigma.
\<close>

definition searchEacute :: ClientFilterParams where
  "searchEacute = \<lparr>search = [233], tag = None, dateRange = None\<rparr>"

definition searchAlphaSigma :: ClientFilterParams where
  "searchAlphaSigma = \<lparr>search = [913, 931], tag = None, dateRange = None\<rparr>"

definition tagVIP :: ClientFilterParams where
  "tagVIP = \<lparr>search = [], tag = Some ''VIP'', dateRange = None\<rparr>"

definition tagEmpty :: ClientFilterParams where
  "tagEmpty = \<lparr>search = [], tag = Some [], dateRange = None\<rparr>"

definition tagVIP_searchBeta :: ClientFilterParams where
  "tagVIP_searchBeta = \<lparr>search = js ''beta'', tag = Some ''VIP'', dateRange = None\<rparr>"

definition januaryToJune :: DateRange where
  "januaryToJune = \<lparr>from_DateRange = Some (Time 1672531200000),
                     to_DateRange = Some (Time 1685577600000)\<rparr>"

definition invalidToJune :: DateRange where
  "invalidToJune = \<lparr>from_DateRange = Some InvalidDate,
                     to_DateRange = Some (Time 1685577600000)\<rparr>"

definition fromMarch :: DateRange where
  "fromMarch = \<lparr>from_DateRange = Some (Time 1677628800000), to_DateRange = None\<rparr>"

definition inRange :: "DateRange \<Rightarrow> ClientFilterParams" where
  "inRange dr = \<lparr>search = [], tag = None, dateRange = Some dr\<rparr>"

definition exampleState :: "string ClientList_state" where
  "exampleState = \<lparr>filterParams = initialFilterParams, showFilters = False,
                   clientToDelete = None, showDetails = None\<rparr>"

definition pendingAcme :: "string ClientList_state" where
  "pendingAcme = exampleState\<lparr>clientToDelete := Some acme\<rparr>"

definition showingAcme :: "string ClientList_state" where
  "showingAcme = exampleState\<lparr>showDetails := Some ''1''\<rparr>"

definition showingGone :: "string ClientList_state" where
  "showingGone = exampleState\<lparr>showDetails := Some ''9''\<rparr>"

definition loginForm :: Login_state where
  "loginForm = \<lparr>email_Login = ''a@x.com'', password_Login = ''pw'', isLoading = False\<rparr>"

text \<open>Collaborators for the examples: one that returns and one that throws.\<close>

definition returning :: "'a \<Rightarrow> string + unit" where
  "returning a = Inr ()"

definition throwing :: "'a \<Rightarrow> string + unit" where
  "throwing a = Inl ''failed''"

definition rejecting :: "string \<Rightarrow> string \<Rightarrow> string Awaited" where
  "rejecting e p = Rejected ''401''"

definition accepting :: "string \<Rightarrow> string \<Rightarrow> string Awaited" where
  "accepting e p = Fulfilled"

section \<open>Properties of the filter\<close>

lemmas example_defs =
  acme_def beta_def gamma_def delta_def exampleDate_def searchBeta_def tagVIP_def
  tagEmpty_def tagVIP_searchBeta_def januaryToJune_def invalidToJune_def fromMarch_def
  inRange_def exampleState_def returning_def throwing_def rejecting_def accepting_def
  initialFilterParams_def pendingAcme_def showingAcme_def showingGone_def loginForm_def
  ecole_def alphaSigmaBeta_def searchEacute_def searchAlphaSigma_def js_def

subsection \<open>The string and array primitives\<close>


lemma Array_includes_set: "Array_includes ys x \<longleftrightarrow> x \<in> set ys"
  by (induction ys) auto

subsection \<open>Lower case of ASCII strings\<close>

text \<open>
  On a string of ASCII code units \<open>toLowerCase\<close> works unit by unit: the capitals
  \<open>A\<close> to \<open>Z\<close> become small letters and nothing else changes. Hence, for ASCII
  strings, containment after lower-casing is containment up to letter case.
\<close>

lemma Simple_Lowercase_Mapping_ASCII:
  assumes "c < 128"
  shows "Simple_Lowercase_Mapping c = lowerLetterASCII c"
proof -
  obtain rs where rs: "Lowercase_ranges = (65, 90, 1, 97) # (192, 214, 1, 224) # rs"
    by (simp add: Lowercase_ranges_def)
  show ?thesis
    using assms by (simp add: Simple_Lowercase_Mapping_def rs lowerLetterASCII_def)
qed

lemma Lowercase_Mapping_ASCII:
  "c < 128 \<Longrightarrow> Lowercase_Mapping c = [lowerLetterASCII c]"
  by (simp add: Lowercase_Mapping_def Simple_Lowercase_Mapping_ASCII)

lemma StringToCodePoints_no_surrogates:
  "list_all (\<lambda>u. u < 55296) s \<Longrightarrow> StringToCodePoints s = s"
  by (induction s rule: StringToCodePoints.induct) auto

lemma toLowercase_from_ASCII:
  "isASCII s \<Longrightarrow> toLowercase_from p s = map lowerLetterASCII s"
  by (induction s arbitrary: p) (auto simp: isASCII_def Lowercase_Mapping_ASCII)

lemma CodePointsToString_BMP:
  "list_all (\<lambda>c. c \<le> 65535) cs \<Longrightarrow> CodePointsToString cs = cs"
  by (induction cs) (auto simp: CodePointsToString_def UTF16EncodeCodePoint_def)

lemma toLowerCase_ASCII:
  assumes "isASCII s"
  shows "toLowerCase s = map lowerLetterASCII s"
proof -
  from assms have "list_all (\<lambda>u. u < 55296) s"
    by (auto simp: isASCII_def list_all_iff)
  then have "StringToCodePoints s = s"
    by (rule StringToCodePoints_no_surrogates)
  moreover have "list_all (\<lambda>c. c \<le> 65535) (map lowerLetterASCII s)"
    using assms by (auto simp: isASCII_def list_all_iff lowerLetterASCII_def)
  ultimately show ?thesis
    using assms
    by (simp add: toLowerCase_def toLowercase_def toLowercase_from_ASCII CodePointsToString_BMP)
qed






lemmas ascii_eval = toLowerCase_ASCII isASCII_def lowerLetterASCII_def







lemma searchMatch_empty: "search fp = [] \<Longrightarrow> searchMatch fp c"
  by (simp add: searchMatch_def)

lemma tagMatch_nonempty:
  "tag fp = Some t \<Longrightarrow> t \<noteq> [] \<Longrightarrow> tagMatch fp c = hasTag t c"
  by (simp add: tagMatch_def hasTag_def Array_includes_set split: option.split)

lemma tagMatch_absent: "tag fp = None \<Longrightarrow> tagMatch fp c"
  by (simp add: tagMatch_def)

lemma dateMatch_absent: "dateRange fp = None \<Longrightarrow> dateMatch nd fp c"
  by (simp add: dateMatch_def)

lemma dateMatch_both:
  "dateRange fp = Some dr \<Longrightarrow> from_DateRange dr = Some (Time d1) \<Longrightarrow>
   to_DateRange dr = Some (Time d2) \<Longrightarrow>
   dateMatch nd fp c = (isAfter (nd (createdAt c)) (Time d1) \<and> isBefore (nd (createdAt c)) (Time d2))"
  by (simp add: dateMatch_def Let_def)

lemma isAfter_Time: "isAfter d (Time a) = (\<exists>t. d = Time t \<and> a < t)"
  by (cases d) auto

lemma isBefore_Time: "isBefore d (Time b) = (\<exists>t. d = Time t \<and> t < b)"
  by (cases d) auto

subsection \<open>Search\<close>





subsection \<open>Tag\<close>

text \<open>
  C2, as amended. When the tag filter is a non-empty string \<open>t\<close>, the filter returns
  exactly the clients that pass the search and date filters and whose \<open>tags\<close> are
  present and contain \<open>t\<close> as an equal string; with an empty search string and no
  date range that is exactly the subset of the collection whose \<open>tags\<close> contain
  \<open>t\<close>. No returned client has absent \<open>tags\<close>.
\<close>

theorem tag_returns_exactly_the_tagged:
  assumes "tag fp = Some t" and "t \<noteq> []"
  shows "filteredClients nd L fp =
           filter (\<lambda>c. hasTag t c \<and> searchMatch fp c \<and> dateMatch nd fp c) L \<and>
         (search fp = [] \<and> dateRange fp = None \<longrightarrow>
            filteredClients nd L fp = filter (hasTag t) L) \<and>
         (\<forall>c \<in> set (filteredClients nd L fp). tags c \<noteq> None)"
proof -
  have eq: "filteredClients nd L fp =
              filter (\<lambda>c. hasTag t c \<and> searchMatch fp c \<and> dateMatch nd fp c) L"
    using assms by (auto simp: filteredClients_def tagMatch_nonempty intro: filter_cong)
  have "filteredClients nd L fp = filter (hasTag t) L"
    if "search fp = []" and "dateRange fp = None"
    using that by (simp add: eq searchMatch_empty dateMatch_absent)
  moreover have "\<forall>c \<in> set (filteredClients nd L fp). tags c \<noteq> None"
    by (auto simp: eq hasTag_def split: option.splits)
  ultimately show ?thesis using eq by blast
qed

theorem tag_returns_exactly_the_tagged_witness:
  "tag tagVIP = Some ''VIP'' \<and> ''VIP'' \<noteq> [] \<and> search tagVIP = [] \<and> dateRange tagVIP = None \<and>
   filteredClients exampleDate [acme, beta, gamma, delta] tagVIP =
     filter (hasTag ''VIP'') [acme, beta, gamma, delta] \<and>
   filter (hasTag ''VIP'') [acme, beta, gamma, delta] = [acme]"
proof -
  have h: "tag tagVIP = Some ''VIP''" "''VIP'' \<noteq> []" "search tagVIP = []" "dateRange tagVIP = None"
    by (simp_all add: tagVIP_def)
  have f: "filter (hasTag ''VIP'') [acme, beta, gamma, delta] = [acme]"
    by (simp add: hasTag_def acme_def beta_def gamma_def delta_def)
  from tag_returns_exactly_the_tagged [OF h(1) h(2), of exampleDate "[acme, beta, gamma, delta]"]
  have "filteredClients exampleDate [acme, beta, gamma, delta] tagVIP =
          filter (hasTag ''VIP'') [acme, beta, gamma, delta]"
    using h(3) h(4) by blast
  with h f show ?thesis by (simp only: simp_thms)
qed

text \<open>
  C2 as stated fails twice. With the tag filter set to the empty string the code applies
  no tag filter: the whole collection is returned, the client without \<open>tags\<close> and the
  one with an empty \<open>tags\<close> included. With the tag filter \<open>VIP\<close> and the search
  string \<open>beta\<close> the client tagged \<open>VIP\<close> is not returned, so the result is not the
  whole subset of clients tagged \<open>VIP\<close>.
\<close>

theorem tag_counterexample:
  "filteredClients exampleDate [acme, beta, gamma, delta] tagEmpty = [acme, beta, gamma, delta] \<and>
   tag tagEmpty = Some [] \<and> tags gamma = None \<and> tags beta = Some [] \<and>
   filteredClients exampleDate [acme, beta, gamma, delta] tagVIP_searchBeta = [] \<and>
   tag tagVIP_searchBeta = Some ''VIP'' \<and> tags acme = Some [''VIP'']"
  by (simp add: filteredClients_def searchMatch_def tagMatch_def dateMatch_def
      example_defs ascii_eval)


subsection \<open>Date range\<close>

text \<open>
  C3. With valid bounds \<open>from = D1\<close> and \<open>to = D2\<close>, \<open>D1 < D2\<close>, every returned
  client has a \<open>createdAt\<close> strictly after \<open>D1\<close> and strictly before \<open>D2\<close>; a client
  created exactly at \<open>D1\<close> or at \<open>D2\<close> is not returned; the date test is the
  conjunction of the two comparisons.
\<close>

theorem date_range_is_strict:
  assumes "dateRange fp = Some dr"
    and "from_DateRange dr = Some (Time d1)" and "to_DateRange dr = Some (Time d2)"
    and "d1 < d2"
  shows "(\<forall>c \<in> set (filteredClients nd L fp).
            \<exists>t. nd (createdAt c) = Time t \<and> d1 < t \<and> t < d2) \<and>
         (\<forall>c \<in> set L. nd (createdAt c) = Time d1 \<or> nd (createdAt c) = Time d2
              \<longrightarrow> c \<notin> set (filteredClients nd L fp)) \<and>
         (\<forall>c. dateMatch nd fp c =
              (isAfter (nd (createdAt c)) (Time d1) \<and> isBefore (nd (createdAt c)) (Time d2)))"
proof -
  have dm: "dateMatch nd fp c =
              (isAfter (nd (createdAt c)) (Time d1) \<and> isBefore (nd (createdAt c)) (Time d2))"
    for c
    using assms(1-3) by (rule dateMatch_both)
  have "\<exists>t. nd (createdAt c) = Time t \<and> d1 < t \<and> t < d2"
    if "c \<in> set (filteredClients nd L fp)" for c
  proof -
    from that have "dateMatch nd fp c"
      by (simp add: filteredClients_def)
    then show ?thesis
      unfolding dm isAfter_Time isBefore_Time by auto
  qed
  moreover have "c \<notin> set (filteredClients nd L fp)"
    if "nd (createdAt c) = Time d1 \<or> nd (createdAt c) = Time d2" for c
    using that by (auto simp: filteredClients_def dm)
  ultimately show ?thesis using dm by blast
qed

theorem date_range_is_strict_witness:
  "dateRange (inRange januaryToJune) = Some januaryToJune \<and>
   from_DateRange januaryToJune = Some (Time 1672531200000) \<and>
   to_DateRange januaryToJune = Some (Time 1685577600000) \<and>
   (1672531200000 :: int) < 1685577600000 \<and>
   filteredClients exampleDate [acme, beta, gamma, delta] (inRange januaryToJune) = [delta] \<and>
   exampleDate (createdAt acme) = Time 1672531200000 \<and>
   acme \<notin> set (filteredClients exampleDate [acme, beta, gamma, delta] (inRange januaryToJune)) \<and>
   exampleDate (createdAt beta) = Time 1685577600000 \<and>
   beta \<notin> set (filteredClients exampleDate [acme, beta, gamma, delta] (inRange januaryToJune))"
proof -
  have h: "dateRange (inRange januaryToJune) = Some januaryToJune"
    "from_DateRange januaryToJune = Some (Time 1672531200000)"
    "to_DateRange januaryToJune = Some (Time 1685577600000)"
    "(1672531200000 :: int) < 1685577600000"
    by (simp_all add: inRange_def januaryToJune_def)
  have res: "filteredClients exampleDate [acme, beta, gamma, delta] (inRange januaryToJune) = [delta]"
    by (simp add: example_defs filteredClients_def searchMatch_def tagMatch_def dateMatch_def)
  have a: "exampleDate (createdAt acme) = Time 1672531200000"
    and b: "exampleDate (createdAt beta) = Time 1685577600000"
    by (simp_all add: acme_def beta_def exampleDate_def)
  from date_range_is_strict [OF h, of exampleDate "[acme, beta, gamma, delta]"]
  have ex: "\<forall>c \<in> set [acme, beta, gamma, delta].
          exampleDate (createdAt c) = Time 1672531200000 \<or>
          exampleDate (createdAt c) = Time 1685577600000
          \<longrightarrow> c \<notin> set (filteredClients exampleDate [acme, beta, gamma, delta]
                 (inRange januaryToJune))"
    by blast
  from ex a have "acme \<notin> set (filteredClients exampleDate [acme, beta, gamma, delta]
                 (inRange januaryToJune))"
    by simp
  moreover from ex b have "beta \<notin> set (filteredClients exampleDate [acme, beta, gamma, delta]
                 (inRange januaryToJune))"
    by simp
  ultimately show ?thesis using h res a b by (simp only: simp_thms)
qed

text \<open>
  C4. A date range whose \<open>from\<close> is present but invalid, with a valid \<open>to\<close>, filters
  exactly as the same range with \<open>from\<close> absent.
\<close>

theorem invalid_from_is_absent_from:
  assumes "dateRange fp = Some dr"
    and "from_DateRange dr = Some D" and "\<not> isValid D"
    and "to_DateRange dr = Some T" and "isValid T"
  shows "filteredClients nd L fp =
           filteredClients nd L (fp\<lparr>dateRange := Some (dr\<lparr>from_DateRange := None\<rparr>)\<rparr>)"
proof -
  let ?fp' = "fp\<lparr>dateRange := Some (dr\<lparr>from_DateRange := None\<rparr>)\<rparr>"
  have "searchMatch ?fp' c = searchMatch fp c" for c :: "'a Client"
    by (simp add: searchMatch_def split: option.split)
  moreover have "tagMatch ?fp' c = tagMatch fp c" for c :: "'a Client"
    by (simp add: tagMatch_def)
  moreover have "dateMatch nd ?fp' c = dateMatch nd fp c" for c
    using assms by (simp add: dateMatch_def Let_def)
  ultimately show ?thesis
    by (simp add: filteredClients_def)
qed

theorem invalid_from_is_absent_from_witness:
  "dateRange (inRange invalidToJune) = Some invalidToJune \<and>
   from_DateRange invalidToJune = Some InvalidDate \<and> \<not> isValid InvalidDate \<and>
   to_DateRange invalidToJune = Some (Time 1685577600000) \<and> isValid (Time 1685577600000) \<and>
   filteredClients exampleDate [acme, beta, gamma, delta] (inRange invalidToJune) =
     filteredClients exampleDate [acme, beta, gamma, delta]
       ((inRange invalidToJune)\<lparr>dateRange := Some (invalidToJune\<lparr>from_DateRange := None\<rparr>)\<rparr>) \<and>
   filteredClients exampleDate [acme, beta, gamma, delta] (inRange invalidToJune) = [acme, delta]"
proof -
  have h: "dateRange (inRange invalidToJune) = Some invalidToJune"
    "from_DateRange invalidToJune = Some InvalidDate" "\<not> isValid InvalidDate"
    "to_DateRange invalidToJune = Some (Time 1685577600000)" "isValid (Time 1685577600000)"
    by (simp_all add: inRange_def invalidToJune_def)
  have res: "filteredClients exampleDate [acme, beta, gamma, delta] (inRange invalidToJune) =
      [acme, delta]"
    by (simp add: example_defs filteredClients_def searchMatch_def tagMatch_def dateMatch_def)
  from h res invalid_from_is_absent_from [OF h, of exampleDate "[acme, beta, gamma, delta]"]
  show ?thesis by (simp only: simp_thms)
qed

subsection \<open>Order\<close>

text \<open>
  C5. With the initial filter state (empty search, no tag, no date range) the filter
  returns the collection as it is, and for every filter state the result is a
  subsequence of the collection: the retained clients keep their relative order.
\<close>

theorem default_filter_is_identity:
  "filteredClients nd L initialFilterParams = L \<and> subseq (filteredClients nd L fp) L"
  by (simp add: filteredClients_def initialFilterParams_def searchMatch_def tagMatch_def
      dateMatch_def)

theorem default_filter_is_identity_witness:
  "filteredClients exampleDate [acme, beta, gamma, delta] initialFilterParams =
     [acme, beta, gamma, delta] \<and>
   subseq (filteredClients exampleDate [acme, beta, gamma, delta] searchBeta)
     [acme, beta, gamma, delta]"
  using default_filter_is_identity [of exampleDate "[acme, beta, gamma, delta]" searchBeta]
  by simp

subsection \<open>Clients whose creation date does not parse\<close>

text \<open>
  C10. A client whose \<open>createdAt\<close> gives an invalid date fails the date test, and so
  is not returned, whenever the date range has a valid \<open>from\<close> or a valid \<open>to\<close>.
\<close>

theorem unparseable_createdAt_is_excluded:
  assumes "nd (createdAt c) = InvalidDate"
    and "dateRange fp = Some dr"
    and "(case from_DateRange dr of None \<Rightarrow> False | Some D \<Rightarrow> isValid D) \<or>
         (case to_DateRange dr of None \<Rightarrow> False | Some D \<Rightarrow> isValid D)"
  shows "\<not> dateMatch nd fp c \<and> c \<notin> set (filteredClients nd L fp)"
proof -
  from assms have "\<not> dateMatch nd fp c"
    by (auto simp: dateMatch_def Let_def split: option.splits)
  then show ?thesis
    by (simp add: filteredClients_def)
qed

theorem unparseable_createdAt_is_excluded_witness:
  "exampleDate (createdAt gamma) = InvalidDate \<and>
   dateRange (inRange fromMarch) = Some fromMarch \<and>
   (case from_DateRange fromMarch of None \<Rightarrow> False | Some D \<Rightarrow> isValid D) \<and>
   \<not> dateMatch exampleDate (inRange fromMarch) gamma \<and>
   gamma \<notin> set (filteredClients exampleDate [acme, beta, gamma, delta] (inRange fromMarch))"
proof -
  have h: "exampleDate (createdAt gamma) = InvalidDate"
    "dateRange (inRange fromMarch) = Some fromMarch"
    by (simp_all add: gamma_def exampleDate_def inRange_def)
  have v: "case from_DateRange fromMarch of None \<Rightarrow> False | Some D \<Rightarrow> isValid D"
    by (simp add: fromMarch_def)
  then have "(case from_DateRange fromMarch of None \<Rightarrow> False | Some D \<Rightarrow> isValid D) \<or>
         (case to_DateRange fromMarch of None \<Rightarrow> False | Some D \<Rightarrow> isValid D)"
    by (rule disjI1)
  from unparseable_createdAt_is_excluded
         [where nd = exampleDate and c = gamma and fp = "inRange fromMarch" and dr = fromMarch
            and L = "[acme, beta, gamma, delta]", OF h this] h v
  show ?thesis by (simp only: simp_thms)
qed

section \<open>Properties of the selection state\<close>

subsection \<open>Confirming a deletion\<close>

text \<open>
  C6, as amended. From \<open>PendingDelete c\<close> the Delete button calls \<open>onDeleteClient\<close>
  exactly once, with the id of \<open>c\<close>, and makes no other call. When that call returns,
  whatever it returns, the state becomes \<open>Idle\<close> and nothing else of the state changes;
  when it throws, the exception leaves the handler and the state is unchanged. From
  \<open>Idle\<close> the button calls nothing and changes nothing.
\<close>

theorem confirm_delete_calls_once:
  "(\<forall>c. clientToDelete st = Some c \<longrightarrow>
      calls (deleteClick onDeleteClient st) = [Call_onDeleteClient (id_Client c)] \<and>
      (\<forall>r. onDeleteClient (id_Client c) = Inr r \<longrightarrow>
           state_after (deleteClick onDeleteClient st) = st\<lparr>clientToDelete := None\<rparr> \<and>
           thrown (deleteClick onDeleteClient st) = None) \<and>
      (\<forall>x. onDeleteClient (id_Client c) = Inl x \<longrightarrow>
           state_after (deleteClick onDeleteClient st) = st \<and>
           thrown (deleteClick onDeleteClient st) = Some x)) \<and>
   (clientToDelete st = None \<longrightarrow>
      calls (deleteClick onDeleteClient st) = [] \<and>
      state_after (deleteClick onDeleteClient st) = st \<and>
      thrown (deleteClick onDeleteClient st) = None)"
  by (auto simp: deleteClick_def split: option.splits sum.splits)

theorem confirm_delete_calls_once_witness:
  "clientToDelete pendingAcme = Some acme \<and>
   returning (id_Client acme) = Inr () \<and>
   calls (deleteClick returning pendingAcme) = [Call_onDeleteClient (id_Client acme)] \<and>
   state_after (deleteClick returning pendingAcme) = pendingAcme\<lparr>clientToDelete := None\<rparr> \<and>
   clientToDelete exampleState = None \<and>
   calls (deleteClick returning exampleState) = []"
proof -
  have h: "clientToDelete pendingAcme = Some acme" "returning (id_Client acme) = Inr ()"
    "clientToDelete exampleState = None"
    by (simp_all add: pendingAcme_def exampleState_def returning_def)
  from confirm_delete_calls_once [of pendingAcme returning] h(1) h(2)
  have "calls (deleteClick returning pendingAcme) = [Call_onDeleteClient (id_Client acme)]"
    and "state_after (deleteClick returning pendingAcme) = pendingAcme\<lparr>clientToDelete := None\<rparr>"
    by blast+
  moreover from confirm_delete_calls_once [of exampleState returning] h(3)
  have "calls (deleteClick returning exampleState) = []"
    by blast
  ultimately show ?thesis using h by (simp only: simp_thms)
qed

text \<open>
  C6 as stated fails for a collaborator that fails by throwing: \<open>onDeleteClient\<close> is
  called once with the id, and the state is still \<open>PendingDelete\<close> afterwards.
\<close>

theorem confirm_delete_counterexample:
  "clientToDelete pendingAcme = Some acme \<and>
   calls (deleteClick throwing pendingAcme) = [Call_onDeleteClient ''1''] \<and>
   thrown (deleteClick throwing pendingAcme) = Some ''failed'' \<and>
   clientToDelete (state_after (deleteClick throwing pendingAcme)) = Some acme"
  by (simp add: deleteClick_def pendingAcme_def exampleState_def throwing_def acme_def)

subsection \<open>The other transitions\<close>

text \<open>
  A delete intent on \<open>c\<close> gives \<open>PendingDelete c\<close>; Cancel and closing the dialog give
  \<open>Idle\<close>; Close and closing the details dialog give \<open>Hidden\<close>. None of them touches
  the other cell of the selection state.
\<close>

lemma trashClick_pending:
  "clientToDelete (trashClick c st) = Some c \<and> showDetails (trashClick c st) = showDetails st"
  by (simp add: trashClick_def)

lemma cancelClick_idle:
  "clientToDelete (cancelClick st) = None \<and> showDetails (cancelClick st) = showDetails st"
  by (simp add: cancelClick_def)

lemma deleteDialog_onOpenChange_closed:
  "deleteDialog_onOpenChange False st = cancelClick st \<and> deleteDialog_onOpenChange True st = st"
  by (simp add: deleteDialog_onOpenChange_def cancelClick_def)

lemma closeClick_hidden:
  "showDetails (closeClick st) = None \<and> clientToDelete (closeClick st) = clientToDelete st"
  by (simp add: closeClick_def)

lemma detailsDialog_onOpenChange_closed:
  "detailsDialog_onOpenChange False st = closeClick st \<and> detailsDialog_onOpenChange True st = st"
  by (simp add: detailsDialog_onOpenChange_def closeClick_def)

lemma rowClick_keeps_pending: "clientToDelete (rowClick c st) = clientToDelete st"
  by (simp add: rowClick_def)

subsection \<open>Toggling the details view\<close>

text \<open>
  C7, as amended. From every state other than \<open>Showing X\<close> (that is, from \<open>Hidden\<close>
  or from \<open>Showing Y\<close> with another id), a click on the row of \<open>X\<close> gives
  \<open>Showing X\<close> and a second click gives \<open>Hidden\<close>. From \<open>Showing X\<close> the first
  click gives \<open>Hidden\<close> and the second gives \<open>Showing X\<close> again.
\<close>

theorem toggle_details:
  "(showDetails st \<noteq> Some (id_Client x) \<longrightarrow>
      showDetails (rowClick x st) = Some (id_Client x) \<and>
      showDetails (rowClick x (rowClick x st)) = None) \<and>
   (showDetails st = Some (id_Client x) \<longrightarrow>
      showDetails (rowClick x st) = None \<and>
      showDetails (rowClick x (rowClick x st)) = Some (id_Client x))"
  by (auto simp: rowClick_def)

theorem toggle_details_witness:
  "showDetails exampleState \<noteq> Some (id_Client acme) \<and>
   showDetails (rowClick acme exampleState) = Some ''1'' \<and>
   showDetails (rowClick acme (rowClick acme exampleState)) = None \<and>
   showDetails showingAcme \<noteq> Some (id_Client beta) \<and>
   showDetails (rowClick beta showingAcme) = Some ''2'' \<and>
   showDetails (rowClick beta (rowClick beta showingAcme)) = None"
proof -
  have h: "showDetails exampleState \<noteq> Some (id_Client acme)"
    "showDetails showingAcme \<noteq> Some (id_Client beta)"
    and i: "id_Client acme = ''1''" "id_Client beta = ''2''"
    by (simp_all add: exampleState_def showingAcme_def acme_def beta_def)
  from toggle_details [of exampleState acme] h(1)
  have "showDetails (rowClick acme exampleState) = Some (id_Client acme)"
    and "showDetails (rowClick acme (rowClick acme exampleState)) = None"
    by blast+
  moreover from toggle_details [of showingAcme beta] h(2)
  have "showDetails (rowClick beta showingAcme) = Some (id_Client beta)"
    and "showDetails (rowClick beta (rowClick beta showingAcme)) = None"
    by blast+
  ultimately show ?thesis using h i by (simp only: simp_thms)
qed

text \<open>
  C7 as stated fails when the starting state already shows \<open>X\<close>: two clicks on its row
  lead back to \<open>Showing X\<close>, not to \<open>Hidden\<close>.
\<close>

theorem toggle_details_counterexample:
  "showDetails showingAcme = Some (id_Client acme) \<and>
   showDetails (rowClick acme showingAcme) = None \<and>
   showDetails (rowClick acme (rowClick acme showingAcme)) = Some ''1''"
  by (simp add: rowClick_def showingAcme_def exampleState_def acme_def)

subsection \<open>Editing from the details view\<close>

text \<open>
  C8, as amended. From \<open>Showing i\<close> the Edit Client button resolves the first client
  of the collection whose id is \<open>i\<close>; there is one exactly when some client of the
  collection has that id. It calls \<open>onEditClient\<close> once, with that client, and makes no
  other call. When the call returns, the state becomes \<open>Hidden\<close>; when it throws, the
  exception leaves the handler and the state is unchanged. When no client has the id
  \<open>i\<close>, the button calls nothing, throws nothing and leaves the state as it is.
\<close>

theorem edit_from_details:
  assumes "showDetails st = Some i"
  shows "(\<forall>c. find (\<lambda>c. id_Client c = i) clients = Some c \<longrightarrow>
            c \<in> set clients \<and> id_Client c = i \<and>
            calls (editClientClick onEditClient clients st) = [Call_onEditClient c] \<and>
            (\<forall>r. onEditClient c = Inr r \<longrightarrow>
                 state_after (editClientClick onEditClient clients st) = st\<lparr>showDetails := None\<rparr> \<and>
                 thrown (editClientClick onEditClient clients st) = None) \<and>
            (\<forall>x. onEditClient c = Inl x \<longrightarrow>
                 state_after (editClientClick onEditClient clients st) = st \<and>
                 thrown (editClientClick onEditClient clients st) = Some x)) \<and>
         ((\<forall>c \<in> set clients. id_Client c \<noteq> i) \<longrightarrow>
            editClientClick onEditClient clients st =
              \<lparr>state_after = st, calls = [], thrown = None\<rparr>) \<and>
         ((\<exists>c \<in> set clients. id_Client c = i) \<longrightarrow>
            (\<exists>c. find (\<lambda>c. id_Client c = i) clients = Some c))"
proof (intro conjI allI impI)
  fix c
  assume f: "find (\<lambda>c. id_Client c = i) clients = Some c"
  then show "c \<in> set clients" and "id_Client c = i"
    by (auto simp: find_Some_iff)
  from assms f have fs: "findShown clients st = Some c"
    by (simp add: findShown_def)
  then show "calls (editClientClick onEditClient clients st) = [Call_onEditClient c]"
    by (simp add: editClientClick_def split: sum.split)
  show "state_after (editClientClick onEditClient clients st) = st\<lparr>showDetails := None\<rparr>"
    if "onEditClient c = Inr r" for r
    using fs that by (simp add: editClientClick_def)
  show "thrown (editClientClick onEditClient clients st) = None"
    if "onEditClient c = Inr r" for r
    using fs that by (simp add: editClientClick_def)
  show "state_after (editClientClick onEditClient clients st) = st"
    if "onEditClient c = Inl x" for x
    using fs that by (simp add: editClientClick_def)
  show "thrown (editClientClick onEditClient clients st) = Some x"
    if "onEditClient c = Inl x" for x
    using fs that by (simp add: editClientClick_def)
next
  assume "\<forall>c \<in> set clients. id_Client c \<noteq> i"
  then have "find (\<lambda>c. id_Client c = i) clients = None"
    by (simp add: find_None_iff)
  with assms have "findShown clients st = None"
    by (simp add: findShown_def)
  then show "editClientClick onEditClient clients st =
      \<lparr>state_after = st, calls = [], thrown = None\<rparr>"
    by (simp add: editClientClick_def)
next
  assume "\<exists>c \<in> set clients. id_Client c = i"
  then show "\<exists>c. find (\<lambda>c. id_Client c = i) clients = Some c"
    by (cases "find (\<lambda>c. id_Client c = i) clients") (auto simp: find_None_iff)
qed

theorem edit_from_details_witness:
  "showDetails showingAcme = Some ''1'' \<and>
   findShown [acme, beta] showingAcme = Some acme \<and>
   returning acme = Inr () \<and>
   calls (editClientClick returning [acme, beta] showingAcme) = [Call_onEditClient acme] \<and>
   state_after (editClientClick returning [acme, beta] showingAcme) =
     showingAcme\<lparr>showDetails := None\<rparr> \<and>
   showDetails showingGone = Some ''9'' \<and>
   findShown [acme, beta] showingGone = None \<and>
   editClientClick returning [acme, beta] showingGone =
     \<lparr>state_after = showingGone, calls = [], thrown = None\<rparr>"
proof -
  have h: "showDetails showingAcme = Some ''1''" "showDetails showingGone = Some ''9''"
    "returning acme = Inr ()"
    by (simp_all add: showingAcme_def showingGone_def exampleState_def returning_def)
  have f: "find (\<lambda>c. id_Client c = ''1'') [acme, beta] = Some acme"
    and n: "\<forall>c \<in> set [acme, beta]. id_Client c \<noteq> ''9''"
    by (simp_all add: acme_def beta_def)
  have fs: "findShown [acme, beta] showingAcme = Some acme"
    "findShown [acme, beta] showingGone = None"
    by (simp_all add: findShown_def showingAcme_def showingGone_def exampleState_def
        acme_def beta_def)
  from edit_from_details [OF h(1), of "[acme, beta]" returning] f h(3)
  have "calls (editClientClick returning [acme, beta] showingAcme) = [Call_onEditClient acme]"
    and "state_after (editClientClick returning [acme, beta] showingAcme) =
           showingAcme\<lparr>showDetails := None\<rparr>"
    by blast+
  moreover from edit_from_details [OF h(2), of "[acme, beta]" returning] n
  have "editClientClick returning [acme, beta] showingGone =
          \<lparr>state_after = showingGone, calls = [], thrown = None\<rparr>"
    by blast
  ultimately show ?thesis using h fs by (simp only: simp_thms)
qed

text \<open>
  C8 as stated fails for a collaborator that throws: \<open>onEditClient\<close> is called with the
  resolved client and the details view still shows it afterwards.
\<close>

theorem edit_from_details_counterexample:
  "showDetails showingAcme = Some ''1'' \<and>
   findShown [acme, beta] showingAcme = Some acme \<and>
   calls (editClientClick throwing [acme, beta] showingAcme) = [Call_onEditClient acme] \<and>
   thrown (editClientClick throwing [acme, beta] showingAcme) = Some ''failed'' \<and>
   showDetails (state_after (editClientClick throwing [acme, beta] showingAcme)) = Some ''1''"
  by (simp add: editClientClick_def findShown_def showingAcme_def exampleState_def throwing_def
      acme_def beta_def)

text \<open>
  The guard of the details dialog (line 351): what is rendered is a client of the
  collection whose id is the one shown, and a stale id renders nothing.
\<close>

lemma detailsBody_Some:
  assumes "detailsBody clients st = Some c"
  shows "c \<in> set clients \<and> showDetails st = Some (id_Client c)"
  using assms
  by (auto simp: detailsBody_def findShown_def find_Some_iff split: option.splits if_splits)

lemma detailsBody_stale:
  assumes "showDetails st = Some i" and "\<forall>c \<in> set clients. id_Client c \<noteq> i"
  shows "detailsBody clients st = None"
  using assms by (simp add: detailsBody_def findShown_def find_None_iff)

section \<open>Properties of the login handler\<close>

text \<open>
  C9. When the login promise is rejected, the handler shows a destructive toast titled
  \<open>Error\<close> whose text is one of two fixed messages, it never calls \<open>navigate\<close>, and
  its whole run is the same for every reason of rejection; when email and password are
  filled in, the run is the call of \<open>login\<close> followed by the toast with the fixed
  failure message. In any run that calls \<open>navigate\<close>, the login promise was fulfilled
  and the call comes last, after the call of \<open>login\<close> and the success toast, with the
  destination \<open>/dashboard\<close>.
\<close>

theorem login_rejection_is_reported:
  "(login (email_Login st) (password_Login st) = Rejected e \<longrightarrow>
      (\<exists>t. Call_toast t \<in> set (snd (handleLogin login st)) \<and>
           title t = ''Error'' \<and> variant t = Some ''destructive'' \<and>
           (description t = ''Please enter both email and password'' \<or>
            description t = ''Failed to log in. Please check your credentials.'')) \<and>
      (\<forall>d. Call_navigate d \<notin> set (snd (handleLogin login st))) \<and>
      (\<forall>login' e'. login' (email_Login st) (password_Login st) = Rejected e' \<longrightarrow>
           handleLogin login' st = handleLogin login st) \<and>
      (email_Login st \<noteq> [] \<and> password_Login st \<noteq> [] \<longrightarrow>
         snd (handleLogin login st) =
           [Call_preventDefault,
            Call_login (email_Login st) (password_Login st),
            Call_toast \<lparr>title = ''Error'',
                        description = ''Failed to log in. Please check your credentials.'',
                        variant = Some ''destructive''\<rparr>])) \<and>
   (\<forall>d. Call_navigate d \<in> set (snd (handleLogin login st)) \<longrightarrow>
      login (email_Login st) (password_Login st) = Fulfilled \<and>
      snd (handleLogin login st) =
        [Call_preventDefault,
         Call_login (email_Login st) (password_Login st),
         Call_toast \<lparr>title = ''Success'', description = ''You have successfully logged in'',
                     variant = None\<rparr>,
         Call_navigate ''/dashboard''])"
proof (intro conjI impI allI)
  assume r: "login (email_Login st) (password_Login st) = Rejected e"
  show "\<exists>t. Call_toast t \<in> set (snd (handleLogin login st)) \<and>
           title t = ''Error'' \<and> variant t = Some ''destructive'' \<and>
           (description t = ''Please enter both email and password'' \<or>
            description t = ''Failed to log in. Please check your credentials.'')"
  proof (cases "email_Login st = [] \<or> password_Login st = []")
    case True
    then show ?thesis
      by (intro exI [of _ "\<lparr>title = ''Error'',
            description = ''Please enter both email and password'',
            variant = Some ''destructive''\<rparr>"]) (simp add: handleLogin_def Let_def)
  next
    case False
    with r show ?thesis
      by (intro exI [of _ "\<lparr>title = ''Error'',
            description = ''Failed to log in. Please check your credentials.'',
            variant = Some ''destructive''\<rparr>"]) (simp add: handleLogin_def Let_def)
  qed
  show "Call_navigate d \<notin> set (snd (handleLogin login st))" for d
    using r by (simp add: handleLogin_def Let_def)
  show "handleLogin login' st = handleLogin login st"
    if "login' (email_Login st) (password_Login st) = Rejected e'" for login' e'
    using r that by (simp add: handleLogin_def Let_def)
  show "snd (handleLogin login st) =
           [Call_preventDefault,
            Call_login (email_Login st) (password_Login st),
            Call_toast \<lparr>title = ''Error'',
                        description = ''Failed to log in. Please check your credentials.'',
                        variant = Some ''destructive''\<rparr>]"
    if "email_Login st \<noteq> [] \<and> password_Login st \<noteq> []"
    using r that by (simp add: handleLogin_def Let_def)
next
  fix d
  assume n: "Call_navigate d \<in> set (snd (handleLogin login st))"
  then show "login (email_Login st) (password_Login st) = Fulfilled"
    by (cases "login (email_Login st) (password_Login st)")
      (auto simp: handleLogin_def Let_def split: if_splits)
  from n show "snd (handleLogin login st) =
        [Call_preventDefault,
         Call_login (email_Login st) (password_Login st),
         Call_toast \<lparr>title = ''Success'', description = ''You have successfully logged in'',
                     variant = None\<rparr>,
         Call_navigate ''/dashboard'']"
    by (cases "login (email_Login st) (password_Login st)")
      (auto simp: handleLogin_def Let_def split: if_splits)
qed

theorem login_rejection_is_reported_witness:
  "rejecting (email_Login loginForm) (password_Login loginForm) = Rejected ''401'' \<and>
   email_Login loginForm \<noteq> [] \<and> password_Login loginForm \<noteq> [] \<and>
   snd (handleLogin rejecting loginForm) =
     [Call_preventDefault,
      Call_login (email_Login loginForm) (password_Login loginForm),
      Call_toast \<lparr>title = ''Error'',
                  description = ''Failed to log in. Please check your credentials.'',
                  variant = Some ''destructive''\<rparr>] \<and>
   Call_navigate ''/dashboard'' \<notin> set (snd (handleLogin rejecting loginForm)) \<and>
   Call_navigate ''/dashboard'' \<in> set (snd (handleLogin accepting loginForm)) \<and>
   accepting (email_Login loginForm) (password_Login loginForm) = Fulfilled"
proof -
  have h: "rejecting (email_Login loginForm) (password_Login loginForm) = Rejected ''401''"
    "email_Login loginForm \<noteq> []" "password_Login loginForm \<noteq> []"
    by (simp_all add: rejecting_def loginForm_def)
  have a: "Call_navigate ''/dashboard'' \<in> set (snd (handleLogin accepting loginForm))"
    by (simp add: handleLogin_def Let_def accepting_def loginForm_def)
  from login_rejection_is_reported [of rejecting loginForm "''401''"] h
  have "snd (handleLogin rejecting loginForm) =
     [Call_preventDefault,
      Call_login (email_Login loginForm) (password_Login loginForm),
      Call_toast \<lparr>title = ''Error'',
                  description = ''Failed to log in. Please check your credentials.'',
                  variant = Some ''destructive''\<rparr>]"
    and "Call_navigate ''/dashboard'' \<notin> set (snd (handleLogin rejecting loginForm))"
    by blast+
  moreover from login_rejection_is_reported [of accepting loginForm "''401''"] a
  have "accepting (email_Login loginForm) (password_Login loginForm) = Fulfilled"
    by blast
  ultimately show ?thesis using h a by (simp only: simp_thms)
qed

end
